theory Spec2Isabelle
  imports Main
begin

text \<open>
  The model-property extraction of the view helper, embedded function by function. The
  repository holds two versions of the parser: the current one (\<^verbatim>\<open>src/modelParser.ts\<close>,
  with the cache of \<^verbatim>\<open>src/cache.ts\<close>) and the legacy one
  (\<^verbatim>\<open>aspnetcore-view-helper/src/modelParser.ts\<close>). Both are modelled; the names of
  the legacy functions start with \<open>legacy\<close> where the two would clash.
\<close>

section \<open>Strings\<close>

text \<open>
  Source text, type names and paths are JavaScript strings. They are modelled as lists of
  8-bit characters read as Latin-1 code points; code units from 256 on are outside the
  model. Within that range the white space of \<^verbatim>\<open>\s\<close> and of \<^verbatim>\<open>trim()\<close> is
  TAB, LF, VT, FF, CR, SPACE and NBSP, and the line terminators are LF and CR.
\<close>

abbreviation NL :: char where "NL \<equiv> CHR 0x0A"
abbreviation CR :: char where "CR \<equiv> CHR 0x0D"
abbreviation DQ :: char where "DQ \<equiv> CHR 0x22"
abbreviation SQ :: char where "SQ \<equiv> CHR 0x27"
abbreviation BS :: char where "BS \<equiv> CHR 0x5C"

definition is_space :: "char \<Rightarrow> bool" where
  "is_space c = (of_char c \<in> {9, 10, 11, 12, 13, 32, 160 :: nat})"

definition is_line_terminator :: "char \<Rightarrow> bool" where
  "is_line_terminator c = (c = NL \<or> c = CR)"

definition trim :: "string \<Rightarrow> string" where
  "trim s = rev (dropWhile is_space (rev (dropWhile is_space s)))"

text \<open>\<^verbatim>\<open>toLowerCase\<close> and \<^verbatim>\<open>toUpperCase\<close> on Latin-1: the ASCII letters and the
  accented letters 0xC0..0xDE / 0xE0..0xFE, the signs 0xD7 and 0xF7 apart. (Upper-casing
  0xB5, 0xDF and 0xFF leaves the 8-bit range; the case-insensitive comparison of a regular
  expression without the \<^verbatim>\<open>u\<close> flag keeps such a character apart from every other
  8-bit character, which is what leaving it unchanged does here.)\<close>

definition lower_char :: "char \<Rightarrow> char" where
  "lower_char c =
     (let n = (of_char c :: nat)
      in if (65 \<le> n \<and> n \<le> 90) \<or> (192 \<le> n \<and> n \<le> 222 \<and> n \<noteq> 215) then char_of (n + 32) else c)"

definition upper_char :: "char \<Rightarrow> char" where
  "upper_char c =
     (let n = (of_char c :: nat)
      in if (97 \<le> n \<and> n \<le> 122) \<or> (224 \<le> n \<and> n \<le> 254 \<and> n \<noteq> 247) then char_of (n - 32) else c)"

definition toLowerCase :: "string \<Rightarrow> string" where
  "toLowerCase s = map lower_char s"

definition startsWith :: "string \<Rightarrow> string \<Rightarrow> bool" where
  "startsWith s p = (take (length p) s = p)"

definition endsWith :: "string \<Rightarrow> string \<Rightarrow> bool" where
  "endsWith s p = (length p \<le> length s \<and> drop (length s - length p) s = p)"

fun str_includes :: "string \<Rightarrow> string \<Rightarrow> bool" where
  "str_includes [] p = (p = [])"
| "str_includes (c # t) p = (startsWith (c # t) p \<or> str_includes t p)"

text \<open>\<^verbatim>\<open>s.split(d)\<close> for a one-character separator: never empty, one piece more than
  there are separators.\<close>

fun split :: "char \<Rightarrow> string \<Rightarrow> string list" where
  "split d [] = [[]]"
| "split d (c # t) =
     (if c = d then [] # split d t
      else (case split d t of [] \<Rightarrow> [[c]] | h # r \<Rightarrow> (c # h) # r))"

definition lineCount :: "string \<Rightarrow> nat" where
  "lineCount s = length (split NL s)"

section \<open>Regular expressions\<close>

text \<open>
  The source works through JavaScript regular expressions. Each one is written here as a
  term of \<open>rx\<close>, constructor for constructor, and run by \<open>rmatch\<close>, a backtracking
  matcher: it returns every way the expression can match a prefix of the input, as the
  remaining input and the capture groups, in the order in which the JavaScript matcher
  tries them. The first element is the match JavaScript reports. A greedy star tries one
  more iteration before stopping, a lazy one stops first; an iteration that consumes
  nothing is dropped, as in the language specification.
\<close>

datatype cc =
    Lit char              \<comment> \<open>the character itself\<close>
  | LitI char             \<comment> \<open>the character, under the \<^verbatim>\<open>i\<close> flag\<close>
  | Rng char char         \<comment> \<open>\<^verbatim>\<open>a-z\<close>\<close>
  | Space                 \<comment> \<open>\<^verbatim>\<open>\s\<close>\<close>
  | NonSpace              \<comment> \<open>\<^verbatim>\<open>\S\<close>\<close>

fun in_cc :: "cc \<Rightarrow> char \<Rightarrow> bool" where
  "in_cc (Lit d) c = (c = d)"
| "in_cc (LitI d) c = (upper_char c = upper_char d)"
| "in_cc (Rng a b) c = ((of_char a :: nat) \<le> of_char c \<and> (of_char c :: nat) \<le> of_char b)"
| "in_cc Space c = is_space c"
| "in_cc NonSpace c = (\<not> is_space c)"

datatype rx =
    Eps                   \<comment> \<open>the empty expression\<close>
  | In "cc list"          \<comment> \<open>\<^verbatim>\<open>[...]\<close>, or a single character\<close>
  | NotIn "cc list"       \<comment> \<open>\<^verbatim>\<open>[^...]\<close>\<close>
  | Dot                   \<comment> \<open>\<^verbatim>\<open>.\<close>: any character but a line terminator\<close>
  | Seq rx rx
  | Alt rx rx             \<comment> \<open>\<^verbatim>\<open>a|b\<close>, the left alternative first\<close>
  | Star rx               \<comment> \<open>\<^verbatim>\<open>a*\<close>\<close>
  | LazyStar rx           \<comment> \<open>\<^verbatim>\<open>a*?\<close>\<close>
  | Grp nat rx            \<comment> \<open>capture group number n\<close>
  | EndInput              \<comment> \<open>\<^verbatim>\<open>$\<close> without the \<^verbatim>\<open>m\<close> flag\<close>
  | EndLine               \<comment> \<open>\<^verbatim>\<open>$\<close> with the \<^verbatim>\<open>m\<close> flag\<close>

type_synonym caps = "(nat \<times> string) list"

function rmatch :: "rx \<Rightarrow> string \<Rightarrow> caps \<Rightarrow> (string \<times> caps) list" where
  "rmatch Eps s g = [(s, g)]"
| "rmatch (In cs) s g =
     (case s of [] \<Rightarrow> [] | c # t \<Rightarrow> if list_ex (\<lambda>k. in_cc k c) cs then [(t, g)] else [])"
| "rmatch (NotIn cs) s g =
     (case s of [] \<Rightarrow> [] | c # t \<Rightarrow> if list_ex (\<lambda>k. in_cc k c) cs then [] else [(t, g)])"
| "rmatch Dot s g =
     (case s of [] \<Rightarrow> [] | c # t \<Rightarrow> if is_line_terminator c then [] else [(t, g)])"
| "rmatch (Seq a b) s g = concat (map (\<lambda>m. rmatch b (fst m) (snd m)) (rmatch a s g))"
| "rmatch (Alt a b) s g = rmatch a s g @ rmatch b s g"
| "rmatch (Star a) s g =
     concat (map (\<lambda>m. rmatch (Star a) (fst m) (snd m))
                 (filter (\<lambda>m. length (fst m) < length s) (rmatch a s g))) @ [(s, g)]"
| "rmatch (LazyStar a) s g =
     (s, g) # concat (map (\<lambda>m. rmatch (LazyStar a) (fst m) (snd m))
                          (filter (\<lambda>m. length (fst m) < length s) (rmatch a s g)))"
| "rmatch (Grp n a) s g =
     map (\<lambda>m. (fst m, (n, take (length s - length (fst m)) s) # snd m)) (rmatch a s g)"
| "rmatch EndInput s g = (if s = [] then [(s, g)] else [])"
| "rmatch EndLine s g =
     (case s of [] \<Rightarrow> [(s, g)] | c # t \<Rightarrow> if is_line_terminator c then [(s, g)] else [])"
  by pat_completeness auto
termination
  by (relation "inv_image (less_than <*lex*> less_than) (\<lambda>(r, s, g). (size r, length s))") auto

declare rmatch.simps(7,8) [simp del]

definition lits :: "string \<Rightarrow> rx" where
  "lits s = foldr (\<lambda>c r. Seq (In [Lit c]) r) s Eps"

definition litsI :: "string \<Rightarrow> rx" where
  "litsI s = foldr (\<lambda>c r. Seq (In [LitI c]) r) s Eps"

definition Opt :: "rx \<Rightarrow> rx" where
  "Opt a = Alt a Eps"

definition Plus :: "rx \<Rightarrow> rx" where
  "Plus a = Seq a (Star a)"

fun seqs :: "rx list \<Rightarrow> rx" where
  "seqs [] = Eps"
| "seqs [a] = a"
| "seqs (a # rest) = Seq a (seqs rest)"

fun alts :: "rx list \<Rightarrow> rx" where
  "alts [] = Eps"
| "alts [a] = a"
| "alts (a # rest) = Alt a (alts rest)"

text \<open>\<open>rx_exec\<close> is a match attempt at the start of the input (what an expression that
  begins with \<^verbatim>\<open>^\<close> and has no \<^verbatim>\<open>m\<close> flag amounts to); \<open>rx_search\<close> is
  \<^verbatim>\<open>s.match(r)\<close> for an expression without \<^verbatim>\<open>^\<close>: the first position with a
  match, from the left; \<open>rx_test\<close> is \<^verbatim>\<open>r.test(s)\<close>.\<close>

definition rx_exec :: "rx \<Rightarrow> string \<Rightarrow> (string \<times> caps) option" where
  "rx_exec r s = (case rmatch r s [] of [] \<Rightarrow> None | m # _ \<Rightarrow> Some m)"

fun rx_search :: "rx \<Rightarrow> string \<Rightarrow> (string \<times> caps) option" where
  "rx_search r [] = rx_exec r []"
| "rx_search r (c # t) = (case rx_exec r (c # t) of Some m \<Rightarrow> Some m | None \<Rightarrow> rx_search r t)"

definition rx_test :: "rx \<Rightarrow> string \<Rightarrow> bool" where
  "rx_test r s = (rx_search r s \<noteq> None)"

definition group :: "nat \<Rightarrow> caps \<Rightarrow> string option" where
  "group n g = map_of g n"

text \<open>\<^verbatim>\<open>s.replace(r, rep)\<close> with the \<^verbatim>\<open>g\<close> flag: every match from left to right is
  replaced, the search resuming where the match ended; after an empty match one character
  is copied.\<close>

function replaceAll :: "rx \<Rightarrow> string \<Rightarrow> string \<Rightarrow> string" where
  "replaceAll r rep s =
     (case rx_exec r s of
        Some m \<Rightarrow>
          if length (fst m) < length s then rep @ replaceAll r rep (fst m)
          else (case s of [] \<Rightarrow> rep | c # t \<Rightarrow> rep @ c # replaceAll r rep t)
      | None \<Rightarrow> (case s of [] \<Rightarrow> [] | c # t \<Rightarrow> c # replaceAll r rep t))"
  by pat_completeness auto
termination
  by (relation "measure (\<lambda>(r, rep, s). length s)") auto

declare replaceAll.simps [simp del]

text \<open>\<^verbatim>\<open>s.replace(r, rep)\<close> without the \<^verbatim>\<open>g\<close> flag replaces the first match only;
  \<open>replaceAtStart\<close> is the same for an expression that begins with \<^verbatim>\<open>^\<close>.\<close>

fun replaceFirst :: "rx \<Rightarrow> string \<Rightarrow> string \<Rightarrow> string" where
  "replaceFirst r rep [] = (case rx_exec r [] of Some m \<Rightarrow> rep | None \<Rightarrow> [])"
| "replaceFirst r rep (c # t) =
     (case rx_exec r (c # t) of Some m \<Rightarrow> rep @ fst m | None \<Rightarrow> c # replaceFirst r rep t)"

definition replaceAtStart :: "rx \<Rightarrow> string \<Rightarrow> string \<Rightarrow> string" where
  "replaceAtStart r rep s = (case rx_exec r s of Some m \<Rightarrow> rep @ fst m | None \<Rightarrow> s)"

section \<open>Source normalisation\<close>

text \<open>\<^verbatim>\<open>cleanSourceCode\<close> of the current parser (src/modelParser.ts): five global
  replacements, in this order.\<close>

definition blockCommentRx :: rx where
  \<comment> \<open>\<^verbatim>\<open>/\/\*[\s\S]*?\*\//g\<close>\<close>
  "blockCommentRx = seqs [lits ''/*'', LazyStar (In [Space, NonSpace]), lits ''*/'']"

definition lineCommentRx :: rx where
  \<comment> \<open>\<^verbatim>\<open>/\/\/.*$/gm\<close>\<close>
  "lineCommentRx = seqs [lits ''//'', Star Dot, EndLine]"

definition stringLiteralRx :: rx where
  \<comment> \<open>\<^verbatim>\<open>/"(?:[^"\\]|\\.)*"/g\<close>\<close>
  "stringLiteralRx =
     seqs [In [Lit DQ], Star (Alt (NotIn [Lit DQ, Lit BS]) (Seq (In [Lit BS]) Dot)), In [Lit DQ]]"

definition charLiteralRx :: rx where
  \<comment> \<open>\<^verbatim>\<open>/'(?:[^'\\]|\\.)*'/g\<close>\<close>
  "charLiteralRx =
     seqs [In [Lit SQ], Star (Alt (NotIn [Lit SQ, Lit BS]) (Seq (In [Lit BS]) Dot)), In [Lit SQ]]"

definition verbatimStringRx :: rx where
  \<comment> \<open>\<^verbatim>\<open>/@"(?:[^"]|"")*"/g\<close>\<close>
  "verbatimStringRx =
     seqs [lits [CHR ''@'', DQ], Star (Alt (NotIn [Lit DQ]) (lits [DQ, DQ])), In [Lit DQ]]"

definition cleanSourceCode :: "string \<Rightarrow> string" where
  "cleanSourceCode content =
     replaceAll verbatimStringRx [DQ, DQ]
       (replaceAll charLiteralRx [SQ, SQ]
         (replaceAll stringLiteralRx [DQ, DQ]
           (replaceAll lineCommentRx []
             (replaceAll blockCommentRx [] content))))"

text \<open>The legacy parser (aspnetcore-view-helper/src/modelParser.ts) normalises inside
  \<^verbatim>\<open>parsePropertiesFromFullContent\<close>, with four replacements and no escapes in
  literals.\<close>

definition legacyStringRx :: rx where
  \<comment> \<open>\<^verbatim>\<open>/"[^"]*"/g\<close>\<close>
  "legacyStringRx = seqs [In [Lit DQ], Star (NotIn [Lit DQ]), In [Lit DQ]]"

definition legacyCharRx :: rx where
  \<comment> \<open>\<^verbatim>\<open>/'[^']*'/g\<close>\<close>
  "legacyCharRx = seqs [In [Lit SQ], Star (NotIn [Lit SQ]), In [Lit SQ]]"

definition legacyClean :: "string \<Rightarrow> string" where
  "legacyClean content =
     replaceAll legacyCharRx [SQ, SQ]
       (replaceAll legacyStringRx [DQ, DQ]
         (replaceAll lineCommentRx []
           (replaceAll blockCommentRx [] content)))"

section \<open>Data model\<close>

text \<open>The legacy \<^verbatim>\<open>ModelProperty\<close> interface has six fields; the current one adds
  \<^verbatim>\<open>isNullable\<close> and the four optional metadata fields. An optional field that is
  absent is \<open>None\<close>.\<close>

record LegacyModelProperty =
  name :: string
  type :: string
  isPrimaryKey :: bool
  isRequired :: bool
  attributes :: "string list"
  inputType :: "string option"

record ModelProperty = LegacyModelProperty +
  isNullable :: bool
  displayName :: "string option"
  description :: "string option"
  maxLength :: "nat option"
  minLength :: "nat option"

record ModelCacheEntry =
  modelType :: string
  entryProperties :: "ModelProperty list"
  lastModified :: int
  filePath :: string

section \<open>Input kinds\<close>

definition TYPE_MAPPINGS :: "(string \<times> string) list" where
  "TYPE_MAPPINGS =
     [(''datetime'', ''datetime-local''), (''datetimeoffset'', ''datetime-local''),
      (''date'', ''date''), (''time'', ''time''), (''timespan'', ''time''),
      (''int'', ''number''), (''integer'', ''number''), (''long'', ''number''),
      (''short'', ''number''), (''byte'', ''number''), (''decimal'', ''number''),
      (''double'', ''number''), (''float'', ''number''),
      (''bool'', ''checkbox''), (''boolean'', ''checkbox''),
      (''string'', ''text''), (''char'', ''text''), (''guid'', ''text''), (''uuid'', ''text'')]"

definition ATTRIBUTE_MAPPINGS :: "(string \<times> string) list" where
  "ATTRIBUTE_MAPPINGS =
     [(''email'', ''email''), (''phone'', ''tel''), (''password'', ''password''),
      (''url'', ''url''), (''color'', ''color''), (''range'', ''range''),
      (''file'', ''file''), (''hidden'', ''hidden'')]"

text \<open>The two \<^verbatim>\<open>for (const [key, inputType] of MAP)\<close> loops return at the first entry, in
  insertion order, whose key passes the test.\<close>

fun firstMapping :: "(string \<times> string) list \<Rightarrow> (string \<Rightarrow> bool) \<Rightarrow> string option" where
  "firstMapping [] P = None"
| "firstMapping (e # rest) P = (if P (fst e) then Some (snd e) else firstMapping rest P)"

definition getInputTypeForProperty :: "'a ModelProperty_scheme \<Rightarrow> string" where
  "getInputTypeForProperty property =
     (let ty = toLowerCase (type property);
          attrs = map toLowerCase (attributes property)
      in case firstMapping ATTRIBUTE_MAPPINGS (\<lambda>attrKey. list_ex (\<lambda>attr. str_includes attr attrKey) attrs) of
           Some v \<Rightarrow> v
         | None \<Rightarrow>
             (case firstMapping TYPE_MAPPINGS (\<lambda>typeKey. str_includes ty typeKey) of
                Some v \<Rightarrow> v
              | None \<Rightarrow> ''text''))"

text \<open>The legacy function is a chain of tests, with five attribute keywords.\<close>

definition legacyGetInputTypeForProperty :: "'a LegacyModelProperty_scheme \<Rightarrow> string" where
  "legacyGetInputTypeForProperty property =
     (let ty = toLowerCase (type property);
          attrs = map toLowerCase (attributes property)
      in if list_ex (\<lambda>attr. str_includes attr ''email'') attrs then ''email''
         else if list_ex (\<lambda>attr. str_includes attr ''phone'') attrs then ''tel''
         else if list_ex (\<lambda>attr. str_includes attr ''password'') attrs then ''password''
         else if list_ex (\<lambda>attr. str_includes attr ''url'') attrs then ''url''
         else if list_ex (\<lambda>attr. str_includes attr ''color'') attrs then ''color''
         else if str_includes ty ''datetime'' then ''datetime-local''
         else if str_includes ty ''date'' \<and> \<not> str_includes ty ''datetime'' then ''date''
         else if str_includes ty ''time'' then ''time''
         else if str_includes ty ''bool'' then ''checkbox''
         else if str_includes ty ''int'' \<or> str_includes ty ''long'' \<or> str_includes ty ''short''
                 \<or> str_includes ty ''byte'' then ''number''
         else if str_includes ty ''decimal'' \<or> str_includes ty ''double'' \<or> str_includes ty ''float''
           then ''number''
         else if str_includes ty ''guid'' then ''text''
         else ''text'')"

section \<open>Property classification (current parser)\<close>

definition ws :: rx where
  "ws = In [Space]"

definition digit :: rx where
  "digit = In [Rng CHR ''0'' CHR ''9'']"

definition cleanupType :: "string \<Rightarrow> string" where
  "cleanupType ty =
     trim
       (replaceAtStart (Opt (Grp 1 (seqs [lits ''Microsoft.'', LazyStar Dot, In [Lit CHR ''.'']]))) []
         (replaceAtStart (Opt (Grp 1 (lits ''System.''))) []
           (replaceFirst (Seq (In [Lit CHR ''?'']) (Seq (Star ws) EndInput)) []
             (replaceAll (Plus ws) '' '' ty))))"

definition legacyCleanupType :: "string \<Rightarrow> string" where
  "legacyCleanupType ty =
     trim
       (replaceAtStart (Opt (Grp 1 (lits ''System.''))) []
         (replaceFirst (Seq (In [Lit CHR ''?'']) (Seq (Star ws) EndInput)) []
           (replaceAll (Plus ws) '' '' ty)))"

text \<open>\<^verbatim>\<open>shouldSkipProperty\<close>: the eight name patterns, each with the \<^verbatim>\<open>i\<close> flag, and
  the three exclusion attributes, compared with their case.\<close>

definition skipPatterns :: "(string \<Rightarrow> bool) list" where
  "skipPatterns =
     [\<lambda>n. rx_exec (Seq (litsI ''Id'') EndInput) n \<noteq> None,
      rx_test (Seq (litsI ''CreatedAt'') EndInput),
      rx_test (Seq (litsI ''UpdatedAt'') EndInput),
      rx_test (Seq (litsI ''ModifiedAt'') EndInput),
      rx_test (Seq (litsI ''DeletedAt'') EndInput),
      rx_test (Seq (litsI ''Version'') EndInput),
      rx_test (Seq (litsI ''Timestamp'') EndInput),
      rx_test (Seq (litsI ''RowVersion'') EndInput)]"

definition exclusionAttributes :: "string list" where
  "exclusionAttributes = [''NotMapped'', ''Computed'', ''DatabaseGenerated'']"

definition shouldSkipProperty :: "string \<Rightarrow> string list \<Rightarrow> bool" where
  "shouldSkipProperty nm attrs =
     (if list_ex (\<lambda>attr. list_ex (\<lambda>excl. str_includes attr excl) exclusionAttributes) attrs then True
      else list_ex (\<lambda>pattern. pattern nm) skipPatterns)"

text \<open>\<^verbatim>\<open>extractAttributeMetadata\<close>: four searches in each annotation; a later annotation
  overwrites what an earlier one set.\<close>

record Metadata =
  mDisplayName :: "string option"
  mDescription :: "string option"
  mMaxLength :: "nat option"
  mMinLength :: "nat option"

text \<open>\<^verbatim>\<open>parseInt(t, 10)\<close> on a string of decimal digits, as a natural number (the
  rounding of numbers beyond 2^53 is outside the model).\<close>

definition parseInt :: "string \<Rightarrow> nat" where
  "parseInt ds = foldl (\<lambda>n c. 10 * n + (of_char c - 48)) 0 ds"

definition displayRx :: rx where
  \<comment> \<open>\<^verbatim>\<open>/Display\s*\(\s*Name\s*=\s*"([^"]+)"/\<close>\<close>
  "displayRx =
     seqs [lits ''Display'', Star ws, In [Lit CHR ''(''], Star ws, lits ''Name'', Star ws,
           In [Lit CHR ''=''], Star ws, In [Lit DQ], Grp 1 (Plus (NotIn [Lit DQ])), In [Lit DQ]]"

definition descriptionRx :: rx where
  \<comment> \<open>\<^verbatim>\<open>/Description\s*\(\s*"([^"]+)"/\<close>\<close>
  "descriptionRx =
     seqs [lits ''Description'', Star ws, In [Lit CHR ''(''], Star ws,
           In [Lit DQ], Grp 1 (Plus (NotIn [Lit DQ])), In [Lit DQ]]"

definition maxLengthRx :: rx where
  \<comment> \<open>\<^verbatim>\<open>/(?:MaxLength|StringLength)\s*\(\s*(\d+)/\<close>\<close>
  "maxLengthRx =
     seqs [Alt (lits ''MaxLength'') (lits ''StringLength''), Star ws, In [Lit CHR ''(''], Star ws,
           Grp 1 (Plus digit)]"

definition minLengthRx :: rx where
  \<comment> \<open>\<^verbatim>\<open>/MinLength\s*\(\s*(\d+)/\<close>\<close>
  "minLengthRx = seqs [lits ''MinLength'', Star ws, In [Lit CHR ''(''], Star ws, Grp 1 (Plus digit)]"

text \<open>\<^verbatim>\<open>m?.[1]\<close> under \<^verbatim>\<open>if\<close>: there is a match and group 1 is a non-empty string.\<close>

definition truthyGroup1 :: "(string \<times> caps) option \<Rightarrow> string option" where
  "truthyGroup1 m =
     (case m of
        None \<Rightarrow> None
      | Some r \<Rightarrow> (case group 1 (snd r) of None \<Rightarrow> None | Some t \<Rightarrow> if t = [] then None else Some t))"

definition metadataStep :: "Metadata \<Rightarrow> string \<Rightarrow> Metadata" where
  "metadataStep metadata attr =
     (let m1 = (case truthyGroup1 (rx_search displayRx attr) of
                  Some t \<Rightarrow> metadata\<lparr>mDisplayName := Some t\<rparr> | None \<Rightarrow> metadata);
          m2 = (case truthyGroup1 (rx_search descriptionRx attr) of
                  Some t \<Rightarrow> m1\<lparr>mDescription := Some t\<rparr> | None \<Rightarrow> m1);
          m3 = (case truthyGroup1 (rx_search maxLengthRx attr) of
                  Some t \<Rightarrow> m2\<lparr>mMaxLength := Some (parseInt t)\<rparr> | None \<Rightarrow> m2)
      in case truthyGroup1 (rx_search minLengthRx attr) of
           Some t \<Rightarrow> m3\<lparr>mMinLength := Some (parseInt t)\<rparr> | None \<Rightarrow> m3)"

definition extractAttributeMetadata :: "string list \<Rightarrow> Metadata" where
  "extractAttributeMetadata attrs =
     foldl metadataStep
       \<lparr>mDisplayName = None, mDescription = None, mMaxLength = None, mMinLength = None\<rparr> attrs"

definition hasRequired :: "string list \<Rightarrow> bool" where
  \<comment> \<open>\<^verbatim>\<open>attributes.some(attr => attr.toLowerCase().includes('required'))\<close>\<close>
  "hasRequired attrs = list_ex (\<lambda>attr. str_includes (toLowerCase attr) ''required'') attrs"

definition hasKey :: "string list \<Rightarrow> bool" where
  \<comment> \<open>\<^verbatim>\<open>attributes.some(attr => attr.toLowerCase().includes('key'))\<close>\<close>
  "hasKey attrs = list_ex (\<lambda>attr. str_includes (toLowerCase attr) ''key'') attrs"

definition createModelProperty :: "string \<Rightarrow> string \<Rightarrow> string list \<Rightarrow> ModelProperty" where
  "createModelProperty nm ty attrs =
     (let cleanType = cleanupType ty;
          nullable = str_includes ty ''?'';
          primaryKey = (toLowerCase nm = ''id'' \<or> endsWith (toLowerCase nm) ''id'' \<or> hasKey attrs);
          required = ((\<not> nullable \<and> \<not> primaryKey \<and> \<not> hasRequired attrs) \<or> hasRequired attrs);
          metadata = extractAttributeMetadata attrs
      in \<lparr>name = nm, type = cleanType, isPrimaryKey = primaryKey, isRequired = required,
          attributes = attrs,
          inputType = Some (getInputTypeForProperty
             \<lparr>name = nm, type = cleanType, isPrimaryKey = primaryKey, isRequired = required,
              attributes = attrs, inputType = None, isNullable = nullable,
              displayName = None, description = None, maxLength = None, minLength = None\<rparr>),
          isNullable = nullable,
          displayName = mDisplayName metadata, description = mDescription metadata,
          maxLength = mMaxLength metadata, minLength = mMinLength metadata\<rparr>)"

section \<open>Line scan (current parser)\<close>

definition attributeRx :: rx where
  \<comment> \<open>\<^verbatim>\<open>/^\[([^\]]*)\]$/\<close>\<close>
  "attributeRx = seqs [In [Lit CHR ''[''], Grp 1 (Star (NotIn [Lit CHR '']''])), In [Lit CHR '']''], EndInput]"

definition identStart :: rx where
  "identStart = In [Rng CHR ''A'' CHR ''Z'', Rng CHR ''a'' CHR ''z'', Lit CHR ''_'']"

definition identChar :: rx where
  "identChar = In [Rng CHR ''A'' CHR ''Z'', Rng CHR ''a'' CHR ''z'', Rng CHR ''0'' CHR ''9'', Lit CHR ''_'']"

definition propertyRx :: rx where
  \<comment> \<open>\<^verbatim>\<open>/^(?:public|internal|protected|private)?\s*(?:virtual\s+|override\s+|static\s+)?([A-Za-z_][A-Za-z0-9_<>?,\s]*\??)\s+([A-Za-z_][A-Za-z0-9_]*)\s*\{[^}]*\}/\<close>\<close>
  "propertyRx =
     seqs [Opt (alts [lits ''public'', lits ''internal'', lits ''protected'', lits ''private'']),
           Star ws,
           Opt (alts [Seq (lits ''virtual'') (Plus ws), Seq (lits ''override'') (Plus ws),
                      Seq (lits ''static'') (Plus ws)]),
           Grp 1 (seqs [identStart,
                        Star (In [Rng CHR ''A'' CHR ''Z'', Rng CHR ''a'' CHR ''z'', Rng CHR ''0'' CHR ''9'',
                                  Lit CHR ''_'', Lit CHR ''<'', Lit CHR ''>'', Lit CHR ''?'', Lit CHR '','', Space]),
                        Opt (In [Lit CHR ''?''])]),
           Plus ws,
           Grp 2 (Seq identStart (Star identChar)),
           Star ws,
           In [Lit CHR ''{''],
           Star (NotIn [Lit CHR ''}'']),
           In [Lit CHR ''}'']]"

text \<open>\<^verbatim>\<open>attributeMatch?.[1]\<close>: the line is one bracketed annotation with a non-empty
  interior. \<^verbatim>\<open>propertyMatch?.[1] && propertyMatch?.[2]\<close>: the line starts with a
  property declaration; the result is the trimmed type and name.\<close>

definition attributeMatch :: "string \<Rightarrow> string option" where
  "attributeMatch line = truthyGroup1 (rx_exec attributeRx line)"

definition propertyMatch :: "string \<Rightarrow> (string \<times> string) option" where
  "propertyMatch line =
     (case rx_exec propertyRx line of
        None \<Rightarrow> None
      | Some m \<Rightarrow>
          (case (group 1 (snd m), group 2 (snd m)) of
             (Some ty, Some nm) \<Rightarrow> if ty \<noteq> [] \<and> nm \<noteq> [] then Some (trim ty, trim nm) else None
           | _ \<Rightarrow> None))"

text \<open>The local variables of the loop in \<^verbatim>\<open>parsePropertiesFromContent\<close>.\<close>

record 'p ScanVars =
  properties :: "'p list"
  currentAttributes :: "string list"

record ParseState = "ModelProperty ScanVars" +
  isInClass :: bool
  braceLevel :: int

definition otherCode :: "string \<Rightarrow> bool" where
  \<comment> \<open>\<^verbatim>\<open>!line.includes('[') && !line.includes('{') && !line.includes('}')\<close>\<close>
  "otherCode line = (\<not> str_includes line ''['' \<and> \<not> str_includes line ''{'' \<and> \<not> str_includes line ''}'')"

definition parseLine :: "ParseState \<Rightarrow> string \<Rightarrow> ParseState" where
  "parseLine st raw =
     (let line = trim raw
      in if line = [] \<or> startsWith line ''using '' \<or> startsWith line ''namespace '' then st
         else
           let st1 = st\<lparr>braceLevel := braceLevel st + int (count_list line CHR ''{'')
                                                    - int (count_list line CHR ''}'')\<rparr>
           in if \<not> isInClass st1 \<and> str_includes line ''class '' then st1\<lparr>isInClass := True\<rparr>
              else if isInClass st1 \<and> braceLevel st1 = 0 then st1\<lparr>isInClass := False\<rparr>
              else if \<not> isInClass st1 then st1
              else
                (case attributeMatch line of
                   Some a \<Rightarrow> st1\<lparr>currentAttributes := currentAttributes st1 @ [a]\<rparr>
                 | None \<Rightarrow>
                     (case propertyMatch line of
                        Some tn \<Rightarrow>
                          if shouldSkipProperty (snd tn) (currentAttributes st1)
                          then st1\<lparr>currentAttributes := []\<rparr>
                          else st1\<lparr>properties := properties st1
                                     @ [createModelProperty (snd tn) (fst tn) (currentAttributes st1)],
                                   currentAttributes := []\<rparr>
                      | None \<Rightarrow>
                          if otherCode line then st1\<lparr>currentAttributes := []\<rparr> else st1)))"

definition initialState :: ParseState where
  "initialState = \<lparr>properties = [], currentAttributes = [], isInClass = False, braceLevel = 0\<rparr>"

definition parsePropertiesFromContent :: "string \<Rightarrow> ModelProperty list" where
  "parsePropertiesFromContent content = properties (foldl parseLine initialState (split NL content))"

section \<open>Line scan (legacy parser)\<close>

record LegacyState = "LegacyModelProperty ScanVars" +
  collectingAttributes :: bool

text \<open>Here \<^verbatim>\<open>if (attributeMatch)\<close> accepts an empty interior too.\<close>

definition legacyAttributeMatch :: "string \<Rightarrow> string option" where
  "legacyAttributeMatch line =
     (case rx_exec attributeRx line of
        None \<Rightarrow> None
      | Some m \<Rightarrow> (case group 1 (snd m) of None \<Rightarrow> None | Some a \<Rightarrow> Some a))"

definition legacyPropertyMatch :: "string \<Rightarrow> (string \<times> string) option" where
  "legacyPropertyMatch line =
     (case rx_exec propertyRx line of
        None \<Rightarrow> None
      | Some m \<Rightarrow>
          (case (group 1 (snd m), group 2 (snd m)) of
             (Some ty, Some nm) \<Rightarrow> Some (trim ty, trim nm)
           | _ \<Rightarrow> None))"

definition legacyProperty :: "string \<Rightarrow> string \<Rightarrow> string list \<Rightarrow> LegacyModelProperty" where
  "legacyProperty nm ty attrs =
     \<lparr>name = nm, type = legacyCleanupType ty,
      isPrimaryKey = (toLowerCase nm = ''id'' \<or> endsWith (toLowerCase nm) ''id'' \<or> hasKey attrs),
      isRequired = (\<not> str_includes ty ''?'' \<or> hasRequired attrs),
      attributes = attrs, inputType = None\<rparr>"

definition legacyParseLine :: "LegacyState \<Rightarrow> string \<Rightarrow> LegacyState" where
  "legacyParseLine st raw =
     (let line = trim raw
      in if line = [] \<or> startsWith line ''using '' \<or> startsWith line ''namespace '' then st
         else
           (case legacyAttributeMatch line of
              Some a \<Rightarrow> st\<lparr>currentAttributes := currentAttributes st @ [a], collectingAttributes := True\<rparr>
            | None \<Rightarrow>
                (case legacyPropertyMatch line of
                   Some tn \<Rightarrow>
                     st\<lparr>properties := properties st @ [legacyProperty (snd tn) (fst tn) (currentAttributes st)],
                        currentAttributes := [], collectingAttributes := False\<rparr>
                 | None \<Rightarrow>
                     if \<not> collectingAttributes st
                        \<and> (str_includes line ''{'' \<or> str_includes line ''}'' \<or> str_includes line '';'')
                     then st\<lparr>currentAttributes := [], collectingAttributes := False\<rparr>
                     else st)))"

definition legacyInitialState :: LegacyState where
  "legacyInitialState = \<lparr>properties = [], currentAttributes = [], collectingAttributes = False\<rparr>"

definition parsePropertiesFromFullContent :: "string \<Rightarrow> LegacyModelProperty list" where
  "parsePropertiesFromFullContent content =
     properties (foldl legacyParseLine legacyInitialState (split NL (legacyClean content)))"

section \<open>The environment\<close>

text \<open>
  What the code reads from outside: the workspace file search
  (\<^verbatim>\<open>vscode.workspace.findFiles(pattern, exclude)\<close>, a file standing for its
  \<^verbatim>\<open>fsPath\<close>), file contents, modification times (\<^verbatim>\<open>fs.statSync(p).mtimeMs\<close>),
  the clock (\<^verbatim>\<open>Date.now()\<close>) and the \<^verbatim>\<open>RegExp\<close> constructor applied to a pattern
  built at run time. \<open>None\<close> is a call that throws or a promise that rejects. Times are
  milliseconds, as integers. One call of an entry point or of a cache operation sees one
  environment: the files and the clock do not change while it runs.
\<close>

datatype error = FsError | SyntaxError | NoModelFile

record Env =
  findFiles :: "string \<Rightarrow> string \<Rightarrow> string list option"
  readFile :: "string \<Rightarrow> string option"
  statSync :: "string \<Rightarrow> int option"
  now :: int
  RegExp :: "string \<Rightarrow> string \<Rightarrow> rx option"

section \<open>The cache\<close>

text \<open>A JavaScript \<^verbatim>\<open>Map\<close> keeps its entries in insertion order: a list of key-value
  pairs with distinct keys. \<^verbatim>\<open>set\<close> on a present key replaces the value where it
  stands, on a new key appends.\<close>

type_synonym Cache = "(string \<times> ModelCacheEntry) list"

definition map_get :: "Cache \<Rightarrow> string \<Rightarrow> ModelCacheEntry option" where
  "map_get c k = map_of c k"

definition map_has :: "Cache \<Rightarrow> string \<Rightarrow> bool" where
  "map_has c k = list_ex (\<lambda>e. fst e = k) c"

definition map_delete :: "Cache \<Rightarrow> string \<Rightarrow> Cache" where
  "map_delete c k = filter (\<lambda>e. fst e \<noteq> k) c"

definition map_set :: "Cache \<Rightarrow> string \<Rightarrow> ModelCacheEntry \<Rightarrow> Cache" where
  "map_set c k v = (if map_has c k then map (\<lambda>e. if fst e = k then (k, v) else e) c else c @ [(k, v)])"

definition maxCacheSize :: nat where
  "maxCacheSize = 100"

definition cacheExpirationMs :: int where
  "cacheExpirationMs = 5 * 60 * 1000"

text \<open>\<^verbatim>\<open>get\<close>: the result (\<open>None\<close> is \<^verbatim>\<open>undefined\<close>) and the cache afterwards.\<close>

definition cache_get :: "Env \<Rightarrow> Cache \<Rightarrow> string \<Rightarrow> string \<Rightarrow> ModelProperty list option \<times> Cache" where
  "cache_get env c mt path =
     (case map_get c mt of
        None \<Rightarrow> (None, c)
      | Some entry \<Rightarrow>
          (case statSync env path of
             None \<Rightarrow> (None, map_delete c mt)
           | Some mtimeMs \<Rightarrow>
               if mtimeMs > lastModified entry then (None, map_delete c mt)
               else if now env - lastModified entry > cacheExpirationMs then (None, map_delete c mt)
               else (Some (entryProperties entry), c)))"

text \<open>\<^verbatim>\<open>set\<close>: the eviction runs before the file is looked at, and
  \<^verbatim>\<open>if (firstKey)\<close> is the truthiness of a string: the empty key does not pass it.\<close>

definition cache_evict :: "Cache \<Rightarrow> Cache" where
  "cache_evict c =
     (if length c \<ge> maxCacheSize then
        (case c of [] \<Rightarrow> c | e # _ \<Rightarrow> if fst e \<noteq> [] then map_delete c (fst e) else c)
      else c)"

definition cache_set :: "Env \<Rightarrow> Cache \<Rightarrow> string \<Rightarrow> string \<Rightarrow> ModelProperty list \<Rightarrow> Cache" where
  "cache_set env c mt path props =
     (let c1 = cache_evict c
      in case statSync env path of
           None \<Rightarrow> c1
         | Some mtimeMs \<Rightarrow>
             map_set c1 mt \<lparr>modelType = mt, entryProperties = props, lastModified = mtimeMs, filePath = path\<rparr>)"

definition cache_clear :: "Cache \<Rightarrow> Cache" where
  "cache_clear c = []"

definition cache_delete :: "Cache \<Rightarrow> string \<Rightarrow> bool \<times> Cache" where
  "cache_delete c mt = (map_has c mt, map_delete c mt)"

definition cache_size :: "Cache \<Rightarrow> nat" where
  "cache_size c = length c"

definition cache_cleanup :: "Env \<Rightarrow> Cache \<Rightarrow> Cache" where
  "cache_cleanup env c =
     foldl (\<lambda>acc e. if now env - lastModified (snd e) > cacheExpirationMs then map_delete acc (fst e) else acc)
           c c"

section \<open>The entry points\<close>

definition searchPatterns :: "string \<Rightarrow> string list" where
  "searchPatterns className =
     [''**/'' @ className @ ''.cs'',
      ''**/Models/'' @ className @ ''.cs'',
      ''**/Models/**/'' @ className @ ''.cs'',
      ''**/*Models*/'' @ className @ ''.cs'',
      ''**/Entities/'' @ className @ ''.cs'',
      ''**/Domain/'' @ className @ ''.cs'']"

fun findInPatterns :: "Env \<Rightarrow> string list \<Rightarrow> error + string list" where
  "findInPatterns env [] = Inr []"
| "findInPatterns env (pattern # rest) =
     (case findFiles env pattern ''**/bin/**,**/obj/**,**/node_modules/**'' of
        None \<Rightarrow> Inl FsError
      | Some files \<Rightarrow> if length files > 0 then Inr files else findInPatterns env rest)"

definition findModelFiles :: "Env \<Rightarrow> string \<Rightarrow> error + string list" where
  "findModelFiles env className = findInPatterns env (searchPatterns className)"

fun preferredFile :: "string list \<Rightarrow> string list \<Rightarrow> string option" where
  "preferredFile [] files = None"
| "preferredFile (folder # rest) files =
     (case find (\<lambda>file. str_includes file folder) files of
        Some file \<Rightarrow> Some file
      | None \<Rightarrow> preferredFile rest files)"

definition selectBestModelFile :: "string list \<Rightarrow> error + string" where
  "selectBestModelFile files =
     (if length files = 1 then Inr (hd files)
      else case preferredFile [''Models'', ''Entities'', ''Domain''] files of
             Some file \<Rightarrow> Inr file
           | None \<Rightarrow> (case files of [] \<Rightarrow> Inl NoModelFile | file # _ \<Rightarrow> Inr file))"

text \<open>\<^verbatim>\<open>extractPropertiesFromContent\<close> builds the class-header expression from the class
  name and does not use what it matches: both branches scan the whole normalised text.
  The constructor throws on a name that makes the pattern ill-formed.\<close>

definition classPattern :: "string \<Rightarrow> string" where
  "classPattern className =
     ''(?:public'' @ [BS] @ ''s+)?(?:partial'' @ [BS] @ ''s+)?class'' @ [BS] @ ''s+'' @ className
       @ ''(?:'' @ [BS] @ ''s*:'' @ [BS] @ ''s*['' @ [BS] @ ''w<>,'' @ [BS] @ ''s]+)?'' @ [BS] @ ''s*'' @ [BS] @ ''{''"

definition extractPropertiesFromContent :: "Env \<Rightarrow> string \<Rightarrow> string \<Rightarrow> error + ModelProperty list" where
  "extractPropertiesFromContent env content className =
     (let cleanContent = cleanSourceCode content
      in case RegExp env (classPattern className) ''i'' of
           None \<Rightarrow> Inl SyntaxError
         | Some classRegex \<Rightarrow>
             (case rx_search classRegex cleanContent of
                None \<Rightarrow> Inr (parsePropertiesFromContent cleanContent)
              | Some m \<Rightarrow> Inr (parsePropertiesFromContent cleanContent)))"

text \<open>\<^verbatim>\<open>parseModelProperties\<close>: the value the promise settles with (\<open>Inl\<close> would be a
  rejection) and the cache afterwards. Everything after the two guards runs inside
  \<^verbatim>\<open>try { ... } catch { return []; }\<close>.\<close>

definition parseModelProperties ::
  "Env \<Rightarrow> Cache \<Rightarrow> string \<Rightarrow> string \<Rightarrow> (error + ModelProperty list) \<times> Cache" where
  "parseModelProperties env c mt projectRoot =
     (if trim mt = [] then (Inr [], c)
      else
        let className = last (split CHR ''.'' mt)
        in if className = [] then (Inr [], c)
           else
             (case findModelFiles env className of
                Inl e \<Rightarrow> (Inr [], c)
              | Inr files \<Rightarrow>
                  if length files = 0 then (Inr [], c)
                  else
                    (case selectBestModelFile files of
                       Inl e \<Rightarrow> (Inr [], c)
                     | Inr modelFile \<Rightarrow>
                         (case cache_get env c mt modelFile of
                            (Some cachedProperties, c1) \<Rightarrow> (Inr cachedProperties, c1)
                          | (None, c1) \<Rightarrow>
                              (case readFile env modelFile of
                                 None \<Rightarrow> (Inr [], c1)
                               | Some content \<Rightarrow>
                                   (case extractPropertiesFromContent env content className of
                                      Inl e \<Rightarrow> (Inr [], c1)
                                    | Inr props \<Rightarrow>
                                        (Inr props, cache_set env c1 mt modelFile props)))))))"

text \<open>The legacy entry point has no cache; it tests the type name without trimming it,
  takes the first file found and returns nothing when the class header is not in the
  text.\<close>

definition legacyClassPattern :: "string \<Rightarrow> string" where
  "legacyClassPattern className =
     ''class'' @ [BS] @ ''s+'' @ className @ ''[^{]*'' @ [BS] @ ''{([^}]*)'' @ [BS] @ ''}''"

definition legacyPartialPattern :: "string \<Rightarrow> string" where
  "legacyPartialPattern className =
     ''(?:partial'' @ [BS] @ ''s+)?class'' @ [BS] @ ''s+'' @ className @ ''[^{]*'' @ [BS] @ ''{''"

definition legacyExtractPropertiesFromContent ::
  "Env \<Rightarrow> string \<Rightarrow> string \<Rightarrow> error + LegacyModelProperty list" where
  "legacyExtractPropertiesFromContent env content className =
     (case RegExp env (legacyClassPattern className) ''s'' of
        None \<Rightarrow> Inl SyntaxError
      | Some classRegex \<Rightarrow>
          (case rx_search classRegex content of
             None \<Rightarrow>
               (case RegExp env (legacyPartialPattern className) ''s'' of
                  None \<Rightarrow> Inl SyntaxError
                | Some partialClassRegex \<Rightarrow>
                    (case rx_search partialClassRegex content of
                       Some m \<Rightarrow> Inr (parsePropertiesFromFullContent content)
                     | None \<Rightarrow> Inr []))
           | Some m \<Rightarrow> Inr (parsePropertiesFromFullContent content)))"

definition legacyParseModelProperties :: "Env \<Rightarrow> string \<Rightarrow> string \<Rightarrow> error + LegacyModelProperty list" where
  "legacyParseModelProperties env mt projectRoot =
     (if mt = [] then Inr []
      else
        let className = last (split CHR ''.'' mt)
        in if className = [] then Inr []
           else
             (case findFiles env (''**/'' @ className @ ''.cs'') ''**/bin/**,**/obj/**'' of
                None \<Rightarrow> Inr []
              | Some files \<Rightarrow>
                  (case files of
                     [] \<Rightarrow> Inr []
                   | modelFile # _ \<Rightarrow>
                       (case readFile env modelFile of
                          None \<Rightarrow> Inr []
                        | Some content \<Rightarrow>
                            (case legacyExtractPropertiesFromContent env content className of
                               Inl e \<Rightarrow> Inr []
                             | Inr props \<Rightarrow> Inr props)))))"

section \<open>Sample inputs\<close>

text \<open>A two-property class, and an environment whose workspace holds it as
  \<^verbatim>\<open>Models/Product.cs\<close>, last modified at 1000 and read at 2000. Its \<open>RegExp\<close> gives,
  for the three patterns the parsers build from the class name \<^verbatim>\<open>Product\<close>, the
  expression the pattern denotes.\<close>

definition productSource :: string where
  "productSource =
     ''public class Product'' @ [NL] @
     ''{'' @ [NL] @
     ''    public int Id { get; set; }'' @ [NL] @
     ''    public string Name { get; set; }'' @ [NL] @
     ''}''"

definition productClassRx :: rx where
  \<comment> \<open>\<^verbatim>\<open>/(?:public\s+)?(?:partial\s+)?class\s+Product(?:\s*:\s*[\w<>,\s]+)?\s*\{/i\<close>\<close>
  "productClassRx =
     seqs [Opt (Seq (litsI ''public'') (Plus ws)), Opt (Seq (litsI ''partial'') (Plus ws)),
           litsI ''class'', Plus ws, litsI ''Product'',
           Opt (seqs [Star ws, In [Lit CHR '':''], Star ws,
                      Plus (In [Rng CHR ''A'' CHR ''Z'', Rng CHR ''a'' CHR ''z'', Rng CHR ''0'' CHR ''9'',
                                Lit CHR ''_'', Lit CHR ''<'', Lit CHR ''>'', Lit CHR '','', Space])]),
           Star ws, In [Lit CHR ''{'']]"

definition legacyProductClassRx :: rx where
  \<comment> \<open>\<^verbatim>\<open>/class\s+Product[^{]*\{([^}]*)\}/s\<close>\<close>
  "legacyProductClassRx =
     seqs [lits ''class'', Plus ws, lits ''Product'', Star (NotIn [Lit CHR ''{'']), In [Lit CHR ''{''],
           Grp 1 (Star (NotIn [Lit CHR ''}''])), In [Lit CHR ''}'']]"

definition legacyProductPartialRx :: rx where
  \<comment> \<open>\<^verbatim>\<open>/(?:partial\s+)?class\s+Product[^{]*\{/s\<close>\<close>
  "legacyProductPartialRx =
     seqs [Opt (Seq (lits ''partial'') (Plus ws)), lits ''class'', Plus ws, lits ''Product'',
           Star (NotIn [Lit CHR ''{'']), In [Lit CHR ''{'']]"

definition productEnv :: Env where
  "productEnv =
     \<lparr>findFiles = (\<lambda>pattern exclude.
         if pattern = ''**/Product.cs'' then Some [''Models/Product.cs''] else Some []),
      readFile = (\<lambda>path. if path = ''Models/Product.cs'' then Some productSource else None),
      statSync = (\<lambda>path. if path = ''Models/Product.cs'' then Some 1000 else None),
      now = 2000,
      RegExp = (\<lambda>pattern flags.
         if pattern = classPattern ''Product'' \<and> flags = ''i'' then Some productClassRx
         else if pattern = legacyClassPattern ''Product'' \<and> flags = ''s'' then Some legacyProductClassRx
         else if pattern = legacyPartialPattern ''Product'' \<and> flags = ''s'' then Some legacyProductPartialRx
         else None)\<rparr>"

text \<open>A class with an annotated nullable property, a foreign key and an audit field.\<close>

definition orderSource :: string where
  "orderSource =
     ''public class Order'' @ [NL] @
     ''{'' @ [NL] @
     ''    [Required]'' @ [NL] @
     ''    public string? Note { get; set; }'' @ [NL] @
     ''    public int CustomerId { get; set; }'' @ [NL] @
     ''    public DateTime CreatedAt { get; set; }'' @ [NL] @
     ''}''"

text \<open>A class with a field declaration between an annotation and a property.\<close>

definition leakSource :: string where
  "leakSource =
     ''public class Customer'' @ [NL] @
     ''{'' @ [NL] @
     ''    [Required]'' @ [NL] @
     ''    private int[] scores;'' @ [NL] @
     ''    public string? Name { get; set; }'' @ [NL] @
     ''}''"

text \<open>Environments for the cache alone: every file has the modification time the first
  argument gives, the clock reads the second.\<close>

definition cacheEnv :: "(string \<Rightarrow> int option) \<Rightarrow> int \<Rightarrow> Env" where
  "cacheEnv stat t =
     \<lparr>findFiles = (\<lambda>pattern exclude. Some []), readFile = (\<lambda>path. None), statSync = stat, now = t,
      RegExp = (\<lambda>pattern flags. None)\<rparr>"

text \<open>The cache after one \<^verbatim>\<open>set\<close> per key, from empty, for a file that exists.\<close>

definition cacheAfterSets :: "string list \<Rightarrow> Cache" where
  "cacheAfterSets ks =
     foldl (\<lambda>c k. cache_set (cacheEnv (\<lambda>p. Some 0) 0) c k ''Product.cs'' []) [] ks"

definition keysFromEmpty :: "string list" where
  \<comment> \<open>a hundred keys: the empty string, a, aa, aaa, ...\<close>
  "keysFromEmpty = map (\<lambda>i. replicate i CHR ''a'') [0..<100]"

definition keysNonEmpty :: "string list" where
  \<comment> \<open>a hundred keys: a, aa, aaa, ...\<close>
  "keysNonEmpty = map (\<lambda>i. replicate (Suc i) CHR ''a'') [0..<100]"


text \<open>The property the current parser builds from the first two lines of the body of
  \<open>orderSource\<close>, a property with an e-mail annotation and one with a range annotation,
  and a state of the line scan inside a class body with one pending annotation.\<close>

definition noteProperty :: ModelProperty where
  "noteProperty =
     \<lparr>name = ''Note'', type = ''string'', isPrimaryKey = False, isRequired = True,
      attributes = [''Required''], inputType = Some ''text'', isNullable = True, displayName = None,
      description = None, maxLength = None, minLength = None\<rparr>"

definition emailProperty :: ModelProperty where
  "emailProperty =
     \<lparr>name = ''Contact'', type = ''string'', isPrimaryKey = False, isRequired = True,
      attributes = [''EmailAddress''], inputType = None, isNullable = False, displayName = None,
      description = None, maxLength = None, minLength = None\<rparr>"

definition quantityProperty :: LegacyModelProperty where
  "quantityProperty =
     \<lparr>name = ''Quantity'', type = ''int'', isPrimaryKey = False, isRequired = True,
      attributes = [''Range(1, 10)''], inputType = None\<rparr>"

definition pendingState :: ParseState where
  "pendingState = \<lparr>properties = [], currentAttributes = [''Required''], isInClass = True, braceLevel = 1\<rparr>"


definition urlSource :: string where
  "urlSource =
     ''public class Link'' @ [NL] @
     ''{'' @ [NL] @
     ''    public string Url { get; set; } = '' @ [DQ] @ ''http://example.com'' @ [DQ] @ '';'' @ [NL] @
     ''    public string Owner { get; set; }'' @ [NL] @
     ''    public string Motto { get; set; } = '' @ [DQ] @ ''none'' @ [DQ] @ '';'' @ [NL] @
     ''    public string Title { get; set; }'' @ [NL] @
     ''}''"


section \<open>The input-kind rule as specified\<close>

text \<open>The input-kind rule in the words of the specification: the first entry of the
  attribute table whose keyword occurs, without regard to case, in some annotation; failing
  that, the first entry of the type table whose keyword occurs in the lower-cased type;
  failing that, plain text.\<close>

definition attributeKeywordHit :: "string list \<Rightarrow> string \<Rightarrow> bool" where
  "attributeKeywordHit attrs k = (\<exists>a \<in> set attrs. str_includes (toLowerCase a) k)"

definition inputKindBySpec :: "string \<Rightarrow> string list \<Rightarrow> string" where
  "inputKindBySpec ty attrs =
     (case find (\<lambda>e. attributeKeywordHit attrs (fst e)) ATTRIBUTE_MAPPINGS of
        Some e \<Rightarrow> snd e
      | None \<Rightarrow>
          (case find (\<lambda>e. str_includes (toLowerCase ty) (fst e)) TYPE_MAPPINGS of
             Some e \<Rightarrow> snd e
           | None \<Rightarrow> ''text''))"

section \<open>Auxiliary notions for the proofs\<close>


text \<open>The replacements of the two normalisers as tables, in the order in which they are
  applied, and \<open>runPasses\<close>, which applies a table. \<open>scanWithinLines r s\<close> follows the
  global replacement of \<open>r\<close> over \<open>s\<close> and holds when none of the matches it replaces
  contains a line feed; \<open>passesWithinLines\<close> asks this of every replacement of a table,
  each on the text the replacements before it have produced.\<close>

function scanWithinLines :: "rx \<Rightarrow> string \<Rightarrow> bool" where
  "scanWithinLines r s =
     (case rx_exec r s of
        Some m \<Rightarrow>
          NL \<notin> set (take (length s - length (fst m)) s)
          \<and> (if length (fst m) < length s then scanWithinLines r (fst m)
             else (case s of [] \<Rightarrow> True | c # t \<Rightarrow> scanWithinLines r t))
      | None \<Rightarrow> (case s of [] \<Rightarrow> True | c # t \<Rightarrow> scanWithinLines r t))"
  by pat_completeness auto
termination
  by (relation "measure (\<lambda>(r, s). length s)") auto

declare scanWithinLines.simps [simp del]

definition cleanPasses :: "(rx \<times> string) list" where
  "cleanPasses =
     [(blockCommentRx, []), (lineCommentRx, []), (stringLiteralRx, [DQ, DQ]),
      (charLiteralRx, [SQ, SQ]), (verbatimStringRx, [DQ, DQ])]"



fun passesWithinLines :: "(rx \<times> string) list \<Rightarrow> string \<Rightarrow> bool" where
  "passesWithinLines [] s = True"
| "passesWithinLines (p # ps) s =
     (scanWithinLines (fst p) s \<and> passesWithinLines ps (replaceAll (fst p) (snd p) s))"

section \<open>The cache: lemmas\<close>

lemma map_has_iff: "map_has c k \<longleftrightarrow> k \<in> fst ` set c"
  by (auto simp: map_has_def list_ex_iff)

lemma map_get_set: "map_get (map_set c k v) k = Some v"
  by (induction c) (auto simp: map_get_def map_set_def map_has_def)

lemma map_get_delete: "map_get (map_delete c k) k = None"
  by (induction c) (auto simp: map_get_def map_delete_def)

lemma map_fst_update: "map fst (map (\<lambda>e. if fst e = k then (k, v) else e) c) = map fst c"
  by (induction c) auto

lemma map_fst_map_set:
  "map fst (map_set c k v) = (if map_has c k then map fst c else map fst c @ [k])"
  unfolding map_set_def using map_fst_update[of k v c] by (simp del: map_map)

lemma length_map_set: "length (map_set c k v) = (if map_has c k then length c else Suc (length c))"
  by (simp add: map_set_def)

lemma length_map_delete_le: "length (map_delete c k) \<le> length c"
  by (simp add: map_delete_def)

lemma map_delete_hd: "distinct (map fst c) \<Longrightarrow> c \<noteq> [] \<Longrightarrow> map_delete c (fst (hd c)) = tl c"
  by (cases c) (auto simp: map_delete_def filter_id_conv image_iff)

text \<open>The keys of the store stay distinct under every operation: it is a \<^verbatim>\<open>Map\<close>.\<close>

lemma distinct_map_delete: "distinct (map fst c) \<Longrightarrow> distinct (map fst (map_delete c k))"
  by (simp add: map_delete_def distinct_map_filter)

lemma distinct_map_set: "distinct (map fst c) \<Longrightarrow> distinct (map fst (map_set c k v))"
  by (auto simp: map_fst_map_set map_has_iff)

lemma distinct_cache_evict: "distinct (map fst c) \<Longrightarrow> distinct (map fst (cache_evict c))"
  by (auto simp: cache_evict_def distinct_map_delete split: list.splits)

lemma distinct_cache_set: "distinct (map fst c) \<Longrightarrow> distinct (map fst (cache_set env c mt path ps))"
  by (auto simp: cache_set_def Let_def distinct_map_set distinct_cache_evict split: option.splits)

lemma distinct_cache_get: "distinct (map fst c) \<Longrightarrow> distinct (map fst (snd (cache_get env c mt path)))"
  by (auto simp: cache_get_def distinct_map_delete split: option.splits)

lemma cache_evict_tl:
  assumes "distinct (map fst c)" "length c \<ge> maxCacheSize" "fst (hd c) \<noteq> []"
  shows "cache_evict c = tl c"
  using assms map_delete_hd[of c] by (cases c) (auto simp: cache_evict_def maxCacheSize_def)

text \<open>What holds of the round trip: a \<^verbatim>\<open>set\<close> on a file that can be stat-ed, then a
  \<^verbatim>\<open>get\<close>, returns the stored sequence when the file was modified no more than
  five minutes before the \<^verbatim>\<open>get\<close>, and misses otherwise.\<close>

lemma cache_set_get_recent:
  assumes "statSync env path = Some m" "now env - m \<le> cacheExpirationMs"
  shows "cache_get env (cache_set env c mt path ps) mt path = (Some ps, cache_set env c mt path ps)"
  using assms by (simp add: cache_get_def cache_set_def Let_def map_get_set)

lemma cache_set_get_old:
  assumes "statSync env path = Some m" "now env - m > cacheExpirationMs"
  shows "cache_get env (cache_set env c mt path ps) mt path
           = (None, map_delete (cache_set env c mt path ps) mt)"
  using assms by (simp add: cache_get_def cache_set_def Let_def map_get_set)

text \<open>A newer modification time is a miss, and the entry is gone.\<close>

lemma cache_get_modified:
  assumes "map_get c mt = Some entry" "statSync env path = Some m" "m > lastModified entry"
  shows "cache_get env c mt path = (None, map_delete c mt)
         \<and> map_get (snd (cache_get env c mt path)) mt = None"
  using assms by (simp add: cache_get_def map_get_delete)

text \<open>From the empty cache, a \<^verbatim>\<open>set\<close> per key, for up to a hundred distinct keys, stores
  one entry per key in that order.\<close>

lemma cacheAfterSets_eq:
  assumes "distinct ks" "length ks \<le> maxCacheSize"
  shows "cacheAfterSets ks
       = map (\<lambda>k. (k, \<lparr>modelType = k, entryProperties = [], lastModified = 0, filePath = ''Product.cs''\<rparr>)) ks"
  using assms unfolding cacheAfterSets_def
proof (induction ks rule: rev_induct)
  case Nil
  then show ?case by simp
next
  case (snoc k ks)
  then show ?case
    by (auto simp: cache_set_def cache_evict_def map_set_def map_has_iff image_iff cacheEnv_def)
qed

lemma distinct_keysFromEmpty: "distinct keysFromEmpty"
  by (auto simp: keysFromEmpty_def distinct_map inj_on_def dest: arg_cong[where f=length])

lemma distinct_keysNonEmpty: "distinct keysNonEmpty"
  by (auto simp: keysNonEmpty_def distinct_map inj_on_def dest: arg_cong[where f=length])

lemma keysFromEmpty_Cons: "keysFromEmpty = [] # map (\<lambda>i. replicate i CHR ''a'') [1..<100]"
  by (simp add: keysFromEmpty_def upt_conv_Cons)

lemma keysNonEmpty_Cons: "keysNonEmpty = ''a'' # map (\<lambda>i. replicate (Suc i) CHR ''a'') [1..<100]"
  by (simp add: keysNonEmpty_def upt_conv_Cons)

lemma b_not_replicate_a: "''b'' \<noteq> replicate n CHR ''a''"
  by (cases n) auto

lemma b_not_in_keys: "''b'' \<notin> set keysFromEmpty" "''b'' \<notin> set keysNonEmpty"
  using b_not_replicate_a by (auto simp: keysFromEmpty_def keysNonEmpty_def)

lemma cache_evict_empty_first_key: "cache_evict (([], v) # rest) = ([], v) # rest"
  by (simp add: cache_evict_def)

text \<open>Without the empty key the bound holds: a \<^verbatim>\<open>set\<close> keeps the size within
  \<open>maxCacheSize\<close>, and no other operation adds an entry.\<close>

lemma cache_set_bounded:
  assumes "distinct (map fst c)" "length c \<le> maxCacheSize" "[] \<notin> fst ` set c"
  shows "length (cache_set env c mt path ps) \<le> maxCacheSize"
proof (cases "length c = maxCacheSize")
  case True
  then have ne: "c \<noteq> []" by (auto simp: maxCacheSize_def)
  then have "fst (hd c) \<noteq> []" using assms(3) by (cases c) auto
  then have "cache_evict c = tl c" using assms(1) True by (simp add: cache_evict_tl)
  then have "Suc (length (cache_evict c)) \<le> maxCacheSize" using True ne by (simp add: maxCacheSize_def)
  then show ?thesis
    by (auto simp: cache_set_def Let_def length_map_set split: option.splits)
next
  case False
  then have "cache_evict c = c" "Suc (length c) \<le> maxCacheSize"
    using assms(2) by (auto simp: cache_evict_def)
  then show ?thesis
    by (auto simp: cache_set_def Let_def length_map_set split: option.splits)
qed

lemma cache_set_no_empty_key:
  assumes "[] \<notin> fst ` set c" "mt \<noteq> []"
  shows "[] \<notin> fst ` set (cache_set env c mt path ps)"
proof -
  have "set (cache_evict c) \<subseteq> set c"
    by (auto simp: cache_evict_def map_delete_def split: list.splits)
  then have "[] \<notin> set (map fst (cache_evict c))" using assms(1) by auto
  then have "[] \<notin> set (map fst (map_set (cache_evict c) mt v))" for v
    using assms(2) by (simp add: map_fst_map_set)
  then show ?thesis
    using \<open>[] \<notin> set (map fst (cache_evict c))\<close>
    by (auto simp: cache_set_def Let_def split: option.splits)
qed

lemma cache_get_size: "length (snd (cache_get env c mt path)) \<le> length c"
  by (auto simp: cache_get_def length_map_delete_le split: option.splits)

lemma cache_delete_size: "length (snd (cache_delete c mt)) \<le> length c"
  by (simp add: cache_delete_def length_map_delete_le)

lemma cache_cleanup_size: "length (cache_cleanup env c) \<le> length c"
proof -
  have "length (foldl (\<lambda>acc e. if now env - lastModified (snd e) > cacheExpirationMs
                                then map_delete acc (fst e) else acc) a es) \<le> length a"
    for a :: Cache and es :: Cache
  proof (induction es arbitrary: a)
    case Nil
    then show ?case by simp
  next
    case (Cons e es)
    show ?case
      using Cons.IH[of "map_delete a (fst e)"] Cons.IH[of a] length_map_delete_le[of a "fst e"]
      by (auto intro: order_trans)
  qed
  then show ?thesis by (simp add: cache_cleanup_def)
qed

section \<open>The cache: claims\<close>

text \<open>
  Claim C1 (cache round trip and invalidation). The claim: after \<^verbatim>\<open>set\<close> with the file
  unchanged an immediate \<^verbatim>\<open>get\<close> returns the same property sequence, a newer
  modification time gives a miss that removes the entry, and the age of an entry does not
  depend on when the file was last modified. The code measures the age from the file's
  modification time: for a file last modified at 0 and a clock at 300001, \<^verbatim>\<open>set\<close> on
  the empty cache followed at once by \<^verbatim>\<open>get\<close> is a miss and leaves the cache empty.
\<close>

theorem cache_set_then_get_misses_for_old_file:
  "cache_get (cacheEnv (\<lambda>p. Some 0) 300001)
     (cache_set (cacheEnv (\<lambda>p. Some 0) 300001) [] ''Shop.Models.Product'' ''Models/Product.cs'' ps)
     ''Shop.Models.Product'' ''Models/Product.cs'' = (None, [])"
  by (simp add: cache_get_def cache_set_def cache_evict_def maxCacheSize_def cacheEnv_def
      map_set_def map_has_def map_get_def map_delete_def cacheExpirationMs_def)

text \<open>
  Claim C9 (bounded size). The claim: the cache never holds more than 100 entries, and
  \<^verbatim>\<open>set\<close> at the bound first evicts the oldest entry. When the oldest key is the empty
  string the eviction is skipped: a hundred and one \<^verbatim>\<open>set\<close> calls from the empty
  cache, the first with the empty type name, leave 101 entries.
\<close>

theorem cache_exceeds_bound_after_empty_key:
  "cache_size (cache_set (cacheEnv (\<lambda>p. Some 0) 0) (cacheAfterSets keysFromEmpty) ''b'' ''Product.cs'' []) = 101"
proof -
  have len: "length keysFromEmpty = 100" by (simp add: keysFromEmpty_def)
  have c: "cacheAfterSets keysFromEmpty
       = map (\<lambda>k. (k, \<lparr>modelType = k, entryProperties = [], lastModified = 0, filePath = ''Product.cs''\<rparr>))
             keysFromEmpty"
    using cacheAfterSets_eq[OF distinct_keysFromEmpty] len by (simp add: maxCacheSize_def)
  have ev: "cache_evict (cacheAfterSets keysFromEmpty) = cacheAfterSets keysFromEmpty"
    unfolding c by (simp add: keysFromEmpty_Cons cache_evict_empty_first_key)
  have nb: "\<not> map_has (cacheAfterSets keysFromEmpty) ''b''"
    unfolding c using b_not_in_keys(1) by (auto simp: map_has_iff)
  have "length (cacheAfterSets keysFromEmpty) = 100" unfolding c using len by simp
  then show ?thesis
    using ev nb by (simp add: cache_size_def cache_set_def cacheEnv_def length_map_set)
qed

text \<open>
  Claim C10 (a failed \<^verbatim>\<open>set\<close> still evicts). The claim: whenever \<^verbatim>\<open>set\<close> is invoked
  with the cache at its bound, the oldest entry is removed even if the file cannot be
  stat-ed. The eviction does run before the file is looked at, but behind the same test
  of the oldest key as in C9: after a hundred \<^verbatim>\<open>set\<close> calls from the empty cache, the
  first with the empty type name, a \<^verbatim>\<open>set\<close> for a file that cannot be stat-ed removes
  nothing and leaves the cache as it was.
\<close>

theorem failed_set_keeps_cache_with_empty_first_key:
  "cache_size (cacheAfterSets keysFromEmpty) = maxCacheSize
   \<and> statSync (cacheEnv (\<lambda>p. None) 0) ''Gone.cs'' = None
   \<and> cache_set (cacheEnv (\<lambda>p. None) 0) (cacheAfterSets keysFromEmpty) ''b'' ''Gone.cs'' []
       = cacheAfterSets keysFromEmpty"
proof -
  have len: "length keysFromEmpty = 100" by (simp add: keysFromEmpty_def)
  have c: "cacheAfterSets keysFromEmpty
       = map (\<lambda>k. (k, \<lparr>modelType = k, entryProperties = [], lastModified = 0, filePath = ''Product.cs''\<rparr>))
             keysFromEmpty"
    using cacheAfterSets_eq[OF distinct_keysFromEmpty] len by (simp add: maxCacheSize_def)
  have ev: "cache_evict (cacheAfterSets keysFromEmpty) = cacheAfterSets keysFromEmpty"
    unfolding c by (simp add: keysFromEmpty_Cons cache_evict_empty_first_key)
  have "length (cacheAfterSets keysFromEmpty) = 100" unfolding c using len by simp
  then show ?thesis
    using ev by (simp add: cache_size_def cache_set_def cacheEnv_def maxCacheSize_def)
qed

text \<open>With any other oldest key the failed \<^verbatim>\<open>set\<close> does what the claim says: the oldest
  entry is removed and nothing is stored.\<close>

lemma failed_set_evicts_oldest:
  assumes "distinct (map fst c)" and "length c \<ge> maxCacheSize" and "fst (hd c) \<noteq> []"
    and "statSync env path = None"
  shows "cache_set env c mt path ps = tl c
         \<and> Suc (cache_size (cache_set env c mt path ps)) = cache_size c
         \<and> \<not> map_has (cache_set env c mt path ps) (fst (hd c))"
proof -
  have ne: "c \<noteq> []" using assms(2) by (auto simp: maxCacheSize_def)
  have e: "cache_set env c mt path ps = tl c"
    using assms by (simp add: cache_set_def cache_evict_tl)
  have "\<not> map_has (tl c) (fst (hd c))"
    using assms(1) ne by (cases c) (auto simp: map_has_iff)
  with e ne show ?thesis by (simp add: cache_size_def)
qed

lemma failed_set_evicts_oldest_example:
  "distinct (map fst (cacheAfterSets keysNonEmpty))
   \<and> length (cacheAfterSets keysNonEmpty) \<ge> maxCacheSize
   \<and> fst (hd (cacheAfterSets keysNonEmpty)) \<noteq> []
   \<and> statSync (cacheEnv (\<lambda>p. None) 0) ''Gone.cs'' = None
   \<and> cache_set (cacheEnv (\<lambda>p. None) 0) (cacheAfterSets keysNonEmpty) ''b'' ''Gone.cs'' []
       = tl (cacheAfterSets keysNonEmpty)
   \<and> cache_size (cache_set (cacheEnv (\<lambda>p. None) 0) (cacheAfterSets keysNonEmpty) ''b'' ''Gone.cs'' []) = 99"
proof -
  have len: "length keysNonEmpty = 100" by (simp add: keysNonEmpty_def)
  have c: "cacheAfterSets keysNonEmpty
       = map (\<lambda>k. (k, \<lparr>modelType = k, entryProperties = [], lastModified = 0, filePath = ''Product.cs''\<rparr>))
             keysNonEmpty"
    using cacheAfterSets_eq[OF distinct_keysNonEmpty] len by (simp add: maxCacheSize_def)
  have d: "distinct (map fst (cacheAfterSets keysNonEmpty))"
    unfolding c using distinct_keysNonEmpty by (simp add: comp_def)
  have l: "length (cacheAfterSets keysNonEmpty) \<ge> maxCacheSize"
    unfolding c using len by (simp add: maxCacheSize_def)
  have h: "fst (hd (cacheAfterSets keysNonEmpty)) \<noteq> []"
    unfolding c by (simp add: keysNonEmpty_Cons)
  have s: "statSync (cacheEnv (\<lambda>p. None) 0) ''Gone.cs'' = None"
    by (simp add: cacheEnv_def)
  have n: "cache_size (cacheAfterSets keysNonEmpty) = 100"
    unfolding c using len by (simp add: cache_size_def)
  show ?thesis
    using failed_set_evicts_oldest[OF d l h s, of "''b''" "[]"] d l h s n by (simp add: cache_size_def)
qed

section \<open>Normalisation: lemmas\<close>














section \<open>Normalisation: claims\<close>


text \<open>The line-comment replacement runs before the string replacement, so that
  \<^verbatim>\<open>//\<close> inside a string literal starts a comment and leaves the literal open: over
  \<open>urlSource\<close> the string match then runs from there to the next quote, two lines below,
  and takes two properties with it. The amended claim does not cover such a text.\<close>

lemma line_comment_marker_in_string_literal:
  "lineCount urlSource = 7
   \<and> lineCount (cleanSourceCode urlSource) = 5
   \<and> map name (parsePropertiesFromContent (cleanSourceCode urlSource)) = [''Url'', ''Title'']
   \<and> \<not> passesWithinLines cleanPasses urlSource"
proof -
  have a: "lineCount urlSource = 7" by code_simp
  have b: "lineCount (cleanSourceCode urlSource) = 5" by code_simp
  have c: "map name (parsePropertiesFromContent (cleanSourceCode urlSource)) = [''Url'', ''Title'']"
    by code_simp
  have d: "\<not> passesWithinLines cleanPasses urlSource" by code_simp
  from a b c d show ?thesis by simp
qed



section \<open>The entry points: claims\<close>

text \<open>
  Claim C3 (end to end). The claim: a source declaring \<^verbatim>\<open>public int Id { get; set; }\<close>
  and \<^verbatim>\<open>public string Name { get; set; }\<close> yields two properties, \<^verbatim>\<open>Id\<close> and
  \<^verbatim>\<open>Name\<close>. In the current parser the line of \<^verbatim>\<open>Id\<close> is recognised as a property
  and dropped by \<^verbatim>\<open>shouldSkipProperty\<close>, whose first pattern is \<^verbatim>\<open>/^Id$/i\<close>: one
  property is returned.
\<close>

theorem current_parser_drops_Id:
  "propertyMatch ''public int Id { get; set; }'' = Some (''int'', ''Id'')
   \<and> shouldSkipProperty ''Id'' []
   \<and> map name (parsePropertiesFromContent (cleanSourceCode productSource)) = [''Name'']"
proof -
  have a: "propertyMatch ''public int Id { get; set; }'' = Some (''int'', ''Id'')" by code_simp
  have b: "shouldSkipProperty ''Id'' []" by code_simp
  have c: "map name (parsePropertiesFromContent (cleanSourceCode productSource)) = [''Name'']"
    by code_simp
  from a b c show ?thesis by simp
qed

text \<open>
  Claim C3, amended: over that source the current entry point returns exactly one
  property, \<^verbatim>\<open>Name\<close> (not primary key, required, not nullable, input kind text), the
  property named \<^verbatim>\<open>Id\<close> being skipped; the legacy entry point, which has no skip
  policy, returns exactly two, in order: \<^verbatim>\<open>Id\<close> (primary key, input kind number) and
  \<^verbatim>\<open>Name\<close> (not primary key, required, input kind text).
\<close>

theorem product_end_to_end:
  "fst (parseModelProperties productEnv [] ''Shop.Models.Product'' ''/ws'') =
     Inr [\<lparr>name = ''Name'', type = ''string'', isPrimaryKey = False, isRequired = True,
           attributes = [], inputType = Some ''text'', isNullable = False, displayName = None,
           description = None, maxLength = None, minLength = None\<rparr>]
   \<and> legacyParseModelProperties productEnv ''Shop.Models.Product'' ''/ws'' =
       Inr [\<lparr>name = ''Id'', type = ''int'', isPrimaryKey = True, isRequired = True,
             attributes = [], inputType = None\<rparr>,
            \<lparr>name = ''Name'', type = ''string'', isPrimaryKey = False, isRequired = True,
             attributes = [], inputType = None\<rparr>]
   \<and> (case legacyParseModelProperties productEnv ''Shop.Models.Product'' ''/ws'' of
         Inl e \<Rightarrow> [] | Inr ps \<Rightarrow> map legacyGetInputTypeForProperty ps) = [''number'', ''text'']"
proof -
  have a: "fst (parseModelProperties productEnv [] ''Shop.Models.Product'' ''/ws'') =
     Inr [\<lparr>name = ''Name'', type = ''string'', isPrimaryKey = False, isRequired = True,
           attributes = [], inputType = Some ''text'', isNullable = False, displayName = None,
           description = None, maxLength = None, minLength = None\<rparr>]"
    by code_simp
  have b: "legacyParseModelProperties productEnv ''Shop.Models.Product'' ''/ws'' =
       Inr [\<lparr>name = ''Id'', type = ''int'', isPrimaryKey = True, isRequired = True,
             attributes = [], inputType = None\<rparr>,
            \<lparr>name = ''Name'', type = ''string'', isPrimaryKey = False, isRequired = True,
             attributes = [], inputType = None\<rparr>]"
    by code_simp
  have c: "map legacyGetInputTypeForProperty
             [\<lparr>name = ''Id'', type = ''int'', isPrimaryKey = True, isRequired = True,
               attributes = [], inputType = None\<rparr>,
              \<lparr>name = ''Name'', type = ''string'', isPrimaryKey = False, isRequired = True,
               attributes = [], inputType = None\<rparr>] = [''number'', ''text'']"
    by code_simp
  from a b c show ?thesis by simp
qed

text \<open>
  Claim C4 (an empty type name is a hard failure). The claim: the entry point rejects an
  empty or all-whitespace type name instead of returning the empty sequence. Both entry
  points return the empty sequence for the empty type name, and leave the cache alone.
\<close>

theorem empty_type_name_returns_empty:
  "parseModelProperties productEnv [] [] ''/ws'' = (Inr [], [])
   \<and> legacyParseModelProperties productEnv [] ''/ws'' = Inr []"
  by (simp add: parseModelProperties_def legacyParseModelProperties_def trim_def)

text \<open>
  Claim C4, amended: called with an empty or all-whitespace type name the current entry
  point returns the empty sequence at once, the cache unchanged; the legacy entry point
  does so for the empty type name. Neither entry point ever fails: whatever the type
  name, the workspace and the cache, the result is a property sequence.
\<close>

theorem blank_type_name_degrades_to_empty:
  "(trim mt = [] \<longrightarrow> parseModelProperties env c mt root = (Inr [], c))
   \<and> (\<forall>e. fst (parseModelProperties env c mt root) \<noteq> Inl e)
   \<and> legacyParseModelProperties env [] root = Inr []
   \<and> (\<forall>e. legacyParseModelProperties env mt root \<noteq> Inl e)"
proof -
  have 1: "trim mt = [] \<longrightarrow> parseModelProperties env c mt root = (Inr [], c)"
    by (simp add: parseModelProperties_def)
  have 2: "\<forall>e. fst (parseModelProperties env c mt root) \<noteq> Inl e"
    by (auto simp: parseModelProperties_def Let_def
             split: sum.splits option.splits prod.splits list.splits)
  have 3: "legacyParseModelProperties env [] root = Inr []"
    by (simp add: legacyParseModelProperties_def)
  have 4: "\<forall>e. legacyParseModelProperties env mt root \<noteq> Inl e"
    by (auto simp: legacyParseModelProperties_def Let_def
             split: sum.splits option.splits list.splits)
  from 1 2 3 4 show ?thesis by blast
qed

theorem blank_type_name_degrades_to_empty_witness:
  "trim [CHR '' '', CHR 0x09, CHR '' ''] = []
   \<and> parseModelProperties productEnv [] [CHR '' '', CHR 0x09, CHR '' ''] ''/ws'' = (Inr [], [])"
proof -
  have t: "trim [CHR '' '', CHR 0x09, CHR '' ''] = []" by code_simp
  from blank_type_name_degrades_to_empty[of "[CHR '' '', CHR 0x09, CHR '' '']" productEnv "[]" "''/ws''"] t
  show ?thesis by simp
qed

section \<open>The line scan: lemmas\<close>

text \<open>Whatever holds of every property \<^verbatim>\<open>createModelProperty\<close> builds from a candidate
  that is not skipped holds of every property the scan returns.\<close>

lemma createModelProperty_fields:
  "name (createModelProperty nm ty attrs) = nm"
  "attributes (createModelProperty nm ty attrs) = attrs"
  "isNullable (createModelProperty nm ty attrs) = str_includes ty ''?''"
  "isPrimaryKey (createModelProperty nm ty attrs)
     = (toLowerCase nm = ''id'' \<or> endsWith (toLowerCase nm) ''id'' \<or> hasKey attrs)"
  "isRequired (createModelProperty nm ty attrs)
     = ((\<not> str_includes ty ''?''
         \<and> \<not> (toLowerCase nm = ''id'' \<or> endsWith (toLowerCase nm) ''id'' \<or> hasKey attrs)
         \<and> \<not> hasRequired attrs) \<or> hasRequired attrs)"
  by (simp_all add: createModelProperty_def Let_def)

lemma parseLine_properties:
  assumes "\<forall>p \<in> set (properties st). P p"
    and "\<And>nm ty attrs. \<not> shouldSkipProperty nm attrs \<Longrightarrow> P (createModelProperty nm ty attrs)"
  shows "\<forall>p \<in> set (properties (parseLine st raw)). P p"
  using assms by (auto simp: parseLine_def Let_def split: option.splits)

lemma scan_properties:
  assumes "\<forall>p \<in> set (properties st). P p"
    and "\<And>nm ty attrs. \<not> shouldSkipProperty nm attrs \<Longrightarrow> P (createModelProperty nm ty attrs)"
  shows "\<forall>p \<in> set (properties (foldl parseLine st ls)). P p"
  using assms(1)
proof (induction ls arbitrary: st)
  case Nil
  then show ?case by simp
next
  case (Cons l ls)
  have "\<forall>p \<in> set (properties (parseLine st l)). P p"
    using parseLine_properties[of st P l] Cons.prems assms(2) by blast
  from Cons.IH[OF this] show ?case by simp
qed

lemma parsed_properties:
  assumes "\<And>nm ty attrs. \<not> shouldSkipProperty nm attrs \<Longrightarrow> P (createModelProperty nm ty attrs)"
    and "p \<in> set (parsePropertiesFromContent content)"
  shows "P p"
  using scan_properties[of initialState P "split NL content"] assms
  by (simp add: parsePropertiesFromContent_def initialState_def)

lemma CreatedAt_skipped: "shouldSkipProperty ''CreatedAt'' attrs"
proof -
  have "list_ex (\<lambda>pattern. pattern ''CreatedAt'') skipPatterns" by code_simp
  then show ?thesis by (simp add: shouldSkipProperty_def)
qed







lemma str_includes_single: "str_includes s [c] \<longleftrightarrow> c \<in> set s"
  by (induction s) (auto simp: startsWith_def)

lemma otherCode_no_braces:
  "otherCode line \<Longrightarrow> count_list line CHR ''{'' = 0 \<and> count_list line CHR ''}'' = 0"
  by (simp add: otherCode_def str_includes_single count_list_0_iff)

lemma firstMapping_find: "firstMapping tbl P = map_option snd (find (\<lambda>e. P (fst e)) tbl)"
  by (induction tbl) auto

lemma hit_iff: "list_ex (\<lambda>attr. str_includes attr k) (map toLowerCase attrs) = attributeKeywordHit attrs k"
  by (simp add: attributeKeywordHit_def list_ex_iff)

section \<open>The line scan: claims\<close>




text \<open>
  Claim C6 (other code clears the pending annotations). The claim: every non-blank line
  that is no \<^verbatim>\<open>using\<close> line, no \<^verbatim>\<open>namespace\<close> line, no annotation and no property
  clears the buffer, so that an annotation before it never reaches a later property. In
  the current parser a line that contains a bracket or a brace does not: over
  \<open>leakSource\<close> the field declaration \<^verbatim>\<open>private int[] scores;\<close> leaves the annotation
  pending, and the property after it carries it.
\<close>

theorem bracket_line_keeps_pending_annotation:
  "attributeMatch ''private int[] scores;'' = None
   \<and> propertyMatch ''private int[] scores;'' = None
   \<and> map name (parsePropertiesFromContent (cleanSourceCode leakSource)) = [''Name'']
   \<and> map attributes (parsePropertiesFromContent (cleanSourceCode leakSource)) = [[''Required'']]"
proof -
  have a: "attributeMatch ''private int[] scores;'' = None" by code_simp
  have b: "propertyMatch ''private int[] scores;'' = None" by code_simp
  have c: "map name (parsePropertiesFromContent (cleanSourceCode leakSource)) = [''Name'']"
    by code_simp
  have d: "map attributes (parsePropertiesFromContent (cleanSourceCode leakSource)) = [[''Required'']]"
    by code_simp
  from a b c d show ?thesis by simp
qed

text \<open>The legacy parser keeps the pending annotation over the same line too: its reset
  is guarded by \<^verbatim>\<open>!collectingAttributes\<close>, which is false while an annotation is
  pending.\<close>

lemma legacy_parser_keeps_pending_annotation:
  "map attributes (parsePropertiesFromFullContent leakSource) = [[''Required'']]"
  by code_simp

text \<open>
  Claim C6, amended: in the current parser, inside a class body (the in-class flag set and
  the brace depth not zero), a non-blank line that is no \<^verbatim>\<open>using\<close> line, no
  \<^verbatim>\<open>namespace\<close> line, no annotation line and no property line clears the pending
  annotations when it contains none of the characters \<^verbatim>\<open>[\<close>, \<^verbatim>\<open>{\<close> and \<^verbatim>\<open>}\<close>, and
  changes nothing else, so that the rest of the scan does not depend on the annotations
  collected before it; when it contains one of them, the pending annotations and the
  properties found so far are kept as they are.
\<close>

theorem other_line_and_pending_annotations:
  assumes "isInClass st" and "braceLevel st \<noteq> 0"
    and "trim raw \<noteq> []" and "\<not> startsWith (trim raw) ''using ''"
    and "\<not> startsWith (trim raw) ''namespace ''"
    and "attributeMatch (trim raw) = None" and "propertyMatch (trim raw) = None"
  shows "(otherCode (trim raw) \<longrightarrow>
            parseLine st raw = st\<lparr>currentAttributes := []\<rparr>
            \<and> foldl parseLine st (raw # rest) = foldl parseLine (st\<lparr>currentAttributes := []\<rparr>) rest)
       \<and> (\<not> otherCode (trim raw) \<longrightarrow>
            currentAttributes (parseLine st raw) = currentAttributes st
            \<and> properties (parseLine st raw) = properties st)"
proof -
  have 1: "parseLine st raw = st\<lparr>currentAttributes := []\<rparr>" if "otherCode (trim raw)"
    using assms that otherCode_no_braces[OF that]
    by (simp add: parseLine_def Let_def)
  have 2: "currentAttributes (parseLine st raw) = currentAttributes st
            \<and> properties (parseLine st raw) = properties st" if "\<not> otherCode (trim raw)"
    using assms that by (simp add: parseLine_def Let_def)
  from 1 2 show ?thesis by simp
qed

theorem other_line_and_pending_annotations_witness:
  "isInClass pendingState \<and> braceLevel pendingState \<noteq> 0
   \<and> trim ''    private int count;'' \<noteq> []
   \<and> \<not> startsWith (trim ''    private int count;'') ''using ''
   \<and> \<not> startsWith (trim ''    private int count;'') ''namespace ''
   \<and> attributeMatch (trim ''    private int count;'') = None
   \<and> propertyMatch (trim ''    private int count;'') = None
   \<and> otherCode (trim ''    private int count;'')
   \<and> currentAttributes pendingState = [''Required'']
   \<and> parseLine pendingState ''    private int count;'' = pendingState\<lparr>currentAttributes := []\<rparr>"
proof -
  have t: "trim ''    private int count;'' = ''private int count;''" by code_simp
  have 1: "isInClass pendingState" "braceLevel pendingState \<noteq> 0"
    "currentAttributes pendingState = [''Required'']"
    by (simp_all add: pendingState_def)
  have 2: "trim ''    private int count;'' \<noteq> []" unfolding t by simp
  have 3: "\<not> startsWith (trim ''    private int count;'') ''using ''"
    unfolding t by code_simp
  have 4: "\<not> startsWith (trim ''    private int count;'') ''namespace ''"
    unfolding t by code_simp
  have 5: "attributeMatch (trim ''    private int count;'') = None" unfolding t by code_simp
  have 6: "propertyMatch (trim ''    private int count;'') = None" unfolding t by code_simp
  have 7: "otherCode (trim ''    private int count;'')" unfolding t by code_simp
  from other_line_and_pending_annotations[OF 1(1) 1(2) 2 3 4 5 6, of "[]"] 1 2 3 4 5 6 7
  show ?thesis by simp
qed

text \<open>
  Claim C7 (skip policy). The claim: for every source text a property named
  \<^verbatim>\<open>CreatedAt\<close> never appears in the returned sequence. The legacy parser has no skip
  policy: over \<open>orderSource\<close> it returns \<^verbatim>\<open>CreatedAt\<close>.
\<close>

theorem legacy_parser_returns_CreatedAt:
  "map name (parsePropertiesFromFullContent orderSource) = [''Note'', ''CustomerId'', ''CreatedAt'']"
  by code_simp

text \<open>
  Claim C7, amended: for every source text, no property the current parser returns is one
  that \<^verbatim>\<open>shouldSkipProperty\<close> rejects (a name matching one of the audit and version
  patterns, or an annotation containing \<^verbatim>\<open>NotMapped\<close>, \<^verbatim>\<open>Computed\<close> or
  \<^verbatim>\<open>DatabaseGenerated\<close>); in particular none is named \<^verbatim>\<open>CreatedAt\<close>, with or without
  annotations. The legacy parser skips nothing.
\<close>

theorem skipped_properties_never_returned:
  assumes "p \<in> set (parsePropertiesFromContent content)"
  shows "\<not> shouldSkipProperty (name p) (attributes p) \<and> name p \<noteq> ''CreatedAt''"
proof -
  have "\<not> shouldSkipProperty (name p) (attributes p)"
    by (rule parsed_properties[OF _ assms]) (simp add: createModelProperty_fields)
  then show ?thesis using CreatedAt_skipped by metis
qed

theorem skipped_properties_never_returned_witness:
  "noteProperty \<in> set (parsePropertiesFromContent (cleanSourceCode orderSource))
   \<and> \<not> shouldSkipProperty ''Note'' [''Required''] \<and> ''Note'' \<noteq> ''CreatedAt''"
proof -
  have e: "parsePropertiesFromContent (cleanSourceCode orderSource) =
             [noteProperty,
              \<lparr>name = ''CustomerId'', type = ''int'', isPrimaryKey = True, isRequired = False,
               attributes = [], inputType = Some ''number'', isNullable = False, displayName = None,
               description = None, maxLength = None, minLength = None\<rparr>]"
    by code_simp
  have m: "noteProperty \<in> set (parsePropertiesFromContent (cleanSourceCode orderSource))"
    unfolding e by simp
  from skipped_properties_never_returned[OF m] m
  show ?thesis by (simp add: noteProperty_def)
qed

section \<open>Input kinds: claims\<close>

text \<open>
  Claim C8 (annotation keywords before type keywords). The claim: the input-kind function
  checks the attribute keywords email, phone, password, url, color, range, file and hidden
  first, then the type table. The legacy function knows five attribute keywords only: an
  \<^verbatim>\<open>int\<close> property with a range annotation gets the input kind of its type.
\<close>

theorem legacy_ignores_range_annotation:
  "attributes quantityProperty = [''Range(1, 10)'']
   \<and> legacyGetInputTypeForProperty quantityProperty = ''number''
   \<and> getInputTypeForProperty
         \<lparr>name = ''Quantity'', type = ''int'', isPrimaryKey = False, isRequired = True,
          attributes = [''Range(1, 10)''], inputType = None, isNullable = False, displayName = None,
          description = None, maxLength = None, minLength = None\<rparr> = ''range''"
proof -
  have a: "attributes quantityProperty = [''Range(1, 10)'']" by (simp add: quantityProperty_def)
  have b: "legacyGetInputTypeForProperty quantityProperty = ''number''" by code_simp
  have c: "getInputTypeForProperty
         \<lparr>name = ''Quantity'', type = ''int'', isPrimaryKey = False, isRequired = True,
          attributes = [''Range(1, 10)''], inputType = None, isNullable = False, displayName = None,
          description = None, maxLength = None, minLength = None\<rparr> = ''range''"
    by code_simp
  from a b c show ?thesis by simp
qed

text \<open>
  Claim C8, amended: in the current parser the input kind of every property is the value
  of the first entry of the attribute table (email, phone, password, url, color, range,
  file, hidden, in this order) whose keyword occurs, without regard to case, in one of
  the annotations; failing that, the value of the first entry of the type table whose
  keyword occurs in the lower-cased type; failing that, text. An annotation containing
  \<^verbatim>\<open>email\<close> gives the input kind email whatever the type, in the current and in the
  legacy function; the legacy function checks email, phone, password, url and color only.
\<close>

theorem input_kind_precedence:
  "getInputTypeForProperty p = inputKindBySpec (type p) (attributes p)
   \<and> map fst ATTRIBUTE_MAPPINGS
       = [''email'', ''phone'', ''password'', ''url'', ''color'', ''range'', ''file'', ''hidden'']
   \<and> (attributeKeywordHit (attributes p) ''email'' \<longrightarrow> getInputTypeForProperty p = ''email'')
   \<and> (attributeKeywordHit (attributes q) ''email'' \<longrightarrow> legacyGetInputTypeForProperty q = ''email'')"
proof -
  have 1: "getInputTypeForProperty p = inputKindBySpec (type p) (attributes p)"
    by (simp add: getInputTypeForProperty_def inputKindBySpec_def Let_def firstMapping_find hit_iff
             split: option.splits)
  have 2: "getInputTypeForProperty p = ''email''" if "attributeKeywordHit (attributes p) ''email''"
    unfolding 1 using that by (simp add: inputKindBySpec_def ATTRIBUTE_MAPPINGS_def)
  have 3: "legacyGetInputTypeForProperty q = ''email''" if "attributeKeywordHit (attributes q) ''email''"
    using that by (simp add: legacyGetInputTypeForProperty_def Let_def hit_iff)
  have 4: "map fst ATTRIBUTE_MAPPINGS
       = [''email'', ''phone'', ''password'', ''url'', ''color'', ''range'', ''file'', ''hidden'']"
    by (simp add: ATTRIBUTE_MAPPINGS_def)
  from 1 2 3 4 show ?thesis by simp
qed

theorem input_kind_precedence_witness:
  "type emailProperty = ''string''
   \<and> attributeKeywordHit (attributes emailProperty) ''email''
   \<and> getInputTypeForProperty emailProperty = ''email''
   \<and> getInputTypeForProperty (emailProperty\<lparr>attributes := []\<rparr>) = ''text''"
proof -
  have n: "getInputTypeForProperty (emailProperty\<lparr>attributes := []\<rparr>) = ''text''" by code_simp
  have h: "attributeKeywordHit (attributes emailProperty) ''email''"
    unfolding attributeKeywordHit_def by code_simp
  have t: "type emailProperty = ''string''" by (simp add: emailProperty_def)
  from input_kind_precedence[of emailProperty emailProperty]
  have "attributeKeywordHit (attributes emailProperty) ''email''
          \<longrightarrow> getInputTypeForProperty emailProperty = ''email''"
    by blast
  with h t n show ?thesis by blast
qed

end
